theory Spec2Isabelle
  imports Complex_Main "HOL-Library.Sublist"
begin

section \<open>JavaScript values and strings\<close>

text \<open>
  The messages handed to the DevTools front-end are JavaScript object literals, and several
  fields of a request record are typed \<^verbatim>\<open>any\<close>. Both are modelled by the values below: an
  object is the list of its properties in insertion order, \<open>JUndefined\<close> is the value of a
  property that was never set. Numbers are exact rationals.
\<close>

datatype jsvalue =
    JUndefined
  | JNull
  | JBool bool
  | JNum rat
  | JStr string
  | JArr "jsvalue list"
  | JObj "(string \<times> jsvalue) list"

text \<open>The truth value JavaScript gives to a value in a condition (\<^verbatim>\<open>v ? a : b\<close>, \<^verbatim>\<open>v || d\<close>).\<close>

fun truthy :: "jsvalue \<Rightarrow> bool" where
  "truthy JUndefined = False"
| "truthy JNull = False"
| "truthy (JBool b) = b"
| "truthy (JNum n) = (n \<noteq> 0)"
| "truthy (JStr s) = (s \<noteq> [])"
| "truthy (JArr xs) = True"
| "truthy (JObj kvs) = True"

text \<open>
  Property access \<^verbatim>\<open>o.k\<close> and the test \<^verbatim>\<open>'k' in o\<close>. No object literal of the sources names
  a property twice, so the first entry for a key is the only one.
\<close>

fun field :: "string \<Rightarrow> jsvalue \<Rightarrow> jsvalue" where
  "field k (JObj kvs) = (case map_of kvs k of Some v \<Rightarrow> v | None \<Rightarrow> JUndefined)"
| "field k v = JUndefined"

fun has_field :: "string \<Rightarrow> jsvalue \<Rightarrow> bool" where
  "has_field k (JObj kvs) = (map_of kvs k \<noteq> None)"
| "has_field k v = False"

text \<open>An optional string or number (\<^verbatim>\<open>url?: string\<close>) as a value.\<close>

definition opt_str :: "string option \<Rightarrow> jsvalue" where
  "opt_str x = (case x of None \<Rightarrow> JUndefined | Some s \<Rightarrow> JStr s)"

definition opt_int :: "int option \<Rightarrow> jsvalue" where
  "opt_int x = (case x of None \<Rightarrow> JUndefined | Some n \<Rightarrow> JNum (of_int n))"

definition opt_num :: "rat option \<Rightarrow> jsvalue" where
  "opt_num x = (case x of None \<Rightarrow> JUndefined | Some n \<Rightarrow> JNum n)"

text \<open>
  \<^verbatim>\<open>s.includes(pat)\<close>, and \<^verbatim>\<open>/pat/.test(s)\<close> for a pattern without metacharacters: both
  search \<open>s\<close> for an occurrence of \<open>pat\<close>, case-sensitively.
\<close>

fun startsWith :: "string \<Rightarrow> string \<Rightarrow> bool" where
  "startsWith s [] = True"
| "startsWith [] (p # ps) = False"
| "startsWith (c # cs) (p # ps) = (c = p \<and> startsWith cs ps)"

fun str_includes :: "string \<Rightarrow> string \<Rightarrow> bool" where
  "str_includes [] pat = (pat = [])"
| "str_includes (c # cs) pat = (startsWith (c # cs) pat \<or> str_includes cs pat)"

definition regex_test :: "string \<Rightarrow> string \<Rightarrow> bool" where
  "regex_test pat s = str_includes s pat"

text \<open>\<^verbatim>\<open>s.split(sep)\<close> for a one-character separator: never the empty array.\<close>

fun str_split :: "char \<Rightarrow> string \<Rightarrow> string list" where
  "str_split sep [] = [[]]"
| "str_split sep (c # cs) =
     (if c = sep then [] # str_split sep cs
      else (case str_split sep cs of
              [] \<Rightarrow> [[c]]
            | x # xs \<Rightarrow> (c # x) # xs))"

text \<open>\<^verbatim>\<open>s.toLowerCase()\<close> on ASCII, which is what header names are made of.\<close>

definition toLowerCase_char :: "char \<Rightarrow> char" where
  "toLowerCase_char c =
     (case map_of (zip ''ABCDEFGHIJKLMNOPQRSTUVWXYZ'' ''abcdefghijklmnopqrstuvwxyz'') c of
        None \<Rightarrow> c
      | Some l \<Rightarrow> l)"

definition toLowerCase :: "string \<Rightarrow> string" where
  "toLowerCase s = map toLowerCase_char s"

text \<open>A natural number in decimal, as a template literal prints it.\<close>

definition digit_char :: "nat \<Rightarrow> char" where
  "digit_char d =
     (if d = 0 then CHR ''0'' else if d = 1 then CHR ''1'' else if d = 2 then CHR ''2''
      else if d = 3 then CHR ''3'' else if d = 4 then CHR ''4'' else if d = 5 then CHR ''5''
      else if d = 6 then CHR ''6'' else if d = 7 then CHR ''7'' else if d = 8 then CHR ''8''
      else CHR ''9'')"

fun show_nat :: "nat \<Rightarrow> string" where
  "show_nat n =
     (if n < 10 then [digit_char n] else show_nat (n div 10) @ [digit_char (n mod 10)])"

declare show_nat.simps [simp del]

definition show_int :: "int \<Rightarrow> string" where
  "show_int i = (if i < 0 then CHR ''-'' # show_nat (nat (- i)) else show_nat (nat i))"

text \<open>
  The platform's \<^verbatim>\<open>JSON.stringify\<close> is a parameter of the functions that call it. The
  rendering below is the instance used in the worked examples. A string is put in quotation
  marks, with quotation mark and backslash escaped (the examples have no control characters),
  a property whose value is undefined is left out of an object, an undefined array element
  prints as \<^verbatim>\<open>null\<close>. It prints integers only: of another number it prints the integer part.
\<close>

definition quote_char :: "char \<Rightarrow> string" where
  "quote_char c =
     (if c = CHR 0x22 then [CHR 0x5C, CHR 0x22]
      else if c = CHR 0x5C then [CHR 0x5C, CHR 0x5C]
      else [c])"

definition quote :: "string \<Rightarrow> string" where
  "quote s = CHR 0x22 # concat (map quote_char s) @ [CHR 0x22]"

fun JSON_stringify :: "jsvalue \<Rightarrow> string"
  and stringify_elements :: "jsvalue list \<Rightarrow> string"
  and stringify_members :: "(string \<times> jsvalue) list \<Rightarrow> string" where
  "JSON_stringify JUndefined = []"
| "JSON_stringify JNull = ''null''"
| "JSON_stringify (JBool b) = (if b then ''true'' else ''false'')"
| "JSON_stringify (JNum n) = show_int \<lfloor>n\<rfloor>"
| "JSON_stringify (JStr s) = quote s"
| "JSON_stringify (JArr xs) = ''['' @ stringify_elements xs @ '']''"
| "JSON_stringify (JObj kvs) = ''{'' @ stringify_members kvs @ ''}''"
| "stringify_elements [] = []"
| "stringify_elements (x # xs) =
     (if x = JUndefined then ''null'' else JSON_stringify x)
     @ (if xs = [] then [] else '','' @ stringify_elements xs)"
| "stringify_members [] = []"
| "stringify_members ((k, v) # kvs) =
     (if v = JUndefined then stringify_members kvs
      else quote k @ '':'' @ JSON_stringify v
           @ (let rest = stringify_members kvs in if rest = [] then [] else '','' @ rest))"

section \<open>Header pipe\<close>

text \<open>Headers in insertion order; a value is a string.\<close>

type_synonym headers = "(string \<times> string) list"

text \<open>
  Modelled from the spec: the class \<^verbatim>\<open>RequestHeaderPipe\<close> (\<^verbatim>\<open>./pipe\<close>) is not among the
  sources. Its \<^verbatim>\<open>getHeader(name)\<close> is "case-insensitive, returns first value or undefined".
\<close>

fun getHeader :: "headers \<Rightarrow> string \<Rightarrow> string option" where
  "getHeader [] name = None"
| "getHeader ((k, v) # hs) name =
     (if toLowerCase k = toLowerCase name then Some v else getHeader hs name)"

definition headers_json :: "headers \<Rightarrow> jsvalue" where
  "headers_json hs = JObj (map (\<lambda>(k, v). (k, JStr v)) hs)"

section \<open>Request record (common.ts)\<close>

text \<open>A frame of the captured call stack, as the stack utility returns it.\<close>

record StackFrame =
  fileName :: "string option"
  functionName :: "string option"
  lineNumber :: "int option"
  columnNumber :: "int option"

record ResponseInfo =
  encodedDataLength :: "int option"
  dataLength :: "int option"

record RequestDetail =
  id' :: string
  url :: "string option"
  method' :: "string option"
  cookies :: jsvalue
  requestHeaders :: headers
  requestData :: jsvalue
  responseData :: jsvalue
  responseStatusCode :: "int option"
  responseHeaders :: headers
  responseInfo :: ResponseInfo
  requestStartTime :: "rat option"
  requestEndTime :: "rat option"
  initiator :: jsvalue

text \<open>
  The constructor. Its two sources of non-determinism are parameters: \<open>rid\<close> is the string
  drawn from \<^verbatim>\<open>Math.random()\<close>, \<open>frames\<close> is \<^verbatim>\<open>initiatorStackPipe(getStackFrames())\<close>. Every
  other field starts out unset.
\<close>

definition RequestDetail_new :: "string \<Rightarrow> StackFrame list \<Rightarrow> RequestDetail" where
  "RequestDetail_new rid frames =
     (let callFrames =
            map (\<lambda>frame.
                   let fname = (case fileName frame of
                                  None \<Rightarrow> []
                                | Some f \<Rightarrow> if f = [] then [] else f)
                   in JObj
                        [(''columnNumber'',
                            JNum (case columnNumber frame of
                                    None \<Rightarrow> 0
                                  | Some n \<Rightarrow> if n = 0 then 0 else of_int n)),
                         (''functionName'',
                            JStr (case functionName frame of
                                    None \<Rightarrow> []
                                  | Some f \<Rightarrow> if f = [] then [] else f)),
                         (''lineNumber'',
                            JNum (case lineNumber frame of
                                    None \<Rightarrow> 0
                                  | Some n \<Rightarrow> if n = 0 then 0 else of_int n)),
                         (''url'',
                            JStr (if startsWith fname ''/'' then ''file://'' @ fname
                                  else fname))])
                frames
      in \<lparr> id' = rid,
           url = None,
           method' = None,
           cookies = JUndefined,
           requestHeaders = [],
           requestData = JUndefined,
           responseData = JUndefined,
           responseStatusCode = None,
           responseHeaders = [],
           responseInfo = \<lparr> encodedDataLength = None, dataLength = None \<rparr>,
           requestStartTime = None,
           requestEndTime = None,
           initiator =
             (if length callFrames > 0
              then JObj [(''type'', JStr ''script''),
                         (''stack'', JObj [(''callFrames'', JArr callFrames)])]
              else JUndefined) \<rparr>)"

section \<open>DevTools server (core/index.ts)\<close>

definition frameId :: string where
  "frameId = ''517.528''"

definition loaderId :: string where
  "loaderId = ''517.529''"

definition toMimeType :: "string \<Rightarrow> string" where
  "toMimeType contentType =
     (case str_split CHR '';'' contentType of
        [] \<Rightarrow> ''text/plain''
      | x # xs \<Rightarrow> if x = [] then ''text/plain'' else x)"

text \<open>
  The server object. \<open>socket_resolved\<close> says whether the promise \<^verbatim>\<open>this.socket\<close> has been
  resolved by a first connection. \<open>sent\<close> holds the messages of all calls of \<^verbatim>\<open>send\<close>, oldest
  first. \<open>startTime\<close> is the clock reading (milliseconds) taken at construction. \<open>browser\<close> is
  the child process of the launched browser. The socket server and the listeners for
  inbound messages play no part in what follows and are left out.
\<close>

record DevtoolServer =
  port :: nat
  browser :: "nat option"
  socket_resolved :: bool
  sent :: "jsvalue list"
  timestamp :: rat
  startTime :: int

text \<open>
  The constructor, as far as the fields above go: no browser, no front-end connected, nothing
  sent, and \<open>startTime\<close> the reading \<open>now\<close> of the clock at construction.
\<close>

definition DevtoolServer_new :: "nat \<Rightarrow> int \<Rightarrow> DevtoolServer" where
  "DevtoolServer_new prt now =
     \<lparr> port = prt, browser = None, socket_resolved = False, sent = [],
       timestamp = 0, startTime = now \<rparr>"

text \<open>
  \<^verbatim>\<open>updateTimestamp\<close>; \<open>now\<close> is what \<^verbatim>\<open>Date.now()\<close> returns at the call. The quotient is exact
  here. JavaScript rounds it to the nearest double, which keeps the order of two quotients.
\<close>

definition updateTimestamp :: "int \<Rightarrow> DevtoolServer \<Rightarrow> DevtoolServer" where
  "updateTimestamp now s = s\<lparr> timestamp := of_int (now - startTime s) / 1000 \<rparr>"

text \<open>
  \<^verbatim>\<open>send\<close> awaits the socket promise and then passes the message to the socket. The
  continuations of one promise run in the order in which they were registered, so the
  messages reach the socket in the order of the calls, and none does before the promise is
  resolved. The serialisation of the message to text is left out.
\<close>

definition send :: "jsvalue \<Rightarrow> DevtoolServer \<Rightarrow> DevtoolServer" where
  "send message s = s\<lparr> sent := sent s @ [message] \<rparr>"

text \<open>The first connection of a front-end resolves the promise.\<close>

definition connection :: "DevtoolServer \<Rightarrow> DevtoolServer" where
  "connection s = s\<lparr> socket_resolved := True \<rparr>"

text \<open>What has been passed to the socket.\<close>

definition delivered :: "DevtoolServer \<Rightarrow> jsvalue list" where
  "delivered s = (if socket_resolved s then sent s else [])"

subsection \<open>Opening the front-end\<close>

text \<open>
  The host process as the module reads it: \<^verbatim>\<open>process.env\<close> and \<^verbatim>\<open>process.platform\<close>.
\<close>

record Process =
  env :: "string \<rightharpoonup> string"
  platform :: string

text \<open>
  What the platform and the socket library decide, taken as given: \<open>js_Number\<close> is
  \<^verbatim>\<open>Number\<close> on a string (\<open>None\<close> is \<^verbatim>\<open>NaN\<close>), \<open>js_String\<close> the text a template literal gives
  a number, and \<open>ws_accepts\<close> says of an address whether the constructor \<^verbatim>\<open>new WebSocket\<close>
  takes it as a URL (it throws on one it does not take).
\<close>

record Builtins =
  js_Number :: "string \<Rightarrow> rat option"
  js_String :: "rat option \<Rightarrow> string"
  ws_accepts :: "string \<Rightarrow> bool"

text \<open>
  \<^verbatim>\<open>REMOTE_DEBUGGER_PORT\<close> and \<^verbatim>\<open>IS_DEV_MODE\<close> of common.ts. The port is
  \<^verbatim>\<open>Number(process.env.REMOTE_DEBUGGER_PORT || 9333)\<close>: an unset or empty variable gives 9333.
\<close>

definition REMOTE_DEBUGGER_PORT :: "Builtins \<Rightarrow> Process \<Rightarrow> rat option" where
  "REMOTE_DEBUGGER_PORT b p =
     (case env p ''REMOTE_DEBUGGER_PORT'' of
        None \<Rightarrow> Some 9333
      | Some v \<Rightarrow> if v = [] then Some 9333 else js_Number b v)"

definition IS_DEV_MODE :: "Process \<Rightarrow> bool" where
  "IS_DEV_MODE p = (env p ''NETWORK_DEBUG_MODE'' = Some ''true'')"

text \<open>
  What \<^verbatim>\<open>open\<close> does to the outside: lines on the console, a debugger socket opened to an
  address with the command to send once it is open (\<^verbatim>\<open>manageDebuggerWs\<close>), and the call of
  the browser launcher with the url and the arguments of the application.
\<close>

datatype effect =
    ConsoleLog string
  | ConsoleLogJSON "jsvalue list"
  | DebuggerWs string jsvalue
  | LaunchBrowser string "string list"

text \<open>How an asynchronous call ends: with a value, with an exception, or never.\<close>

datatype 'a completion = Resolved 'a | Rejected | Pending

text \<open>
  \<^verbatim>\<open>manageDebuggerWs\<close>; \<open>None\<close> when \<^verbatim>\<open>new WebSocket(socketUrl)\<close> throws. It throws on a string
  that is not a URL it takes, and on an address that is no string: the property
  \<^verbatim>\<open>webSocketDebuggerUrl\<close> of an entry that has none is undefined. Only for \<^verbatim>\<open>null\<close> the
  constructor returns without connecting, so that nothing is ever sent.
\<close>

definition manageDebuggerWs ::
  "Builtins \<Rightarrow> string \<Rightarrow> jsvalue \<Rightarrow> string \<Rightarrow> effect list option" where
  "manageDebuggerWs b devtools_url socketUrl command =
     (case socketUrl of
        JStr address \<Rightarrow>
          if ws_accepts b address
          then Some
                 [DebuggerWs address
                    (if command = ''open''
                     then JObj [(''id'', JNum 1), (''method'', JStr ''Page.navigate''),
                                (''params'', JObj [(''url'', JStr devtools_url)])]
                     else JObj [(''id'', JNum 1), (''method'', JStr ''Page.close'')])]
          else None
      | JNull \<Rightarrow> Some []
      | _ \<Rightarrow> None)"

text \<open>\<^verbatim>\<open>xs.findIndex(p)\<close>: the first index whose element satisfies \<open>p\<close>, or \<open>-1\<close>.\<close>

fun findIndex :: "('a \<Rightarrow> bool) \<Rightarrow> 'a list \<Rightarrow> int" where
  "findIndex p [] = - 1"
| "findIndex p (x # xs) =
     (if p x then 0 else (let i = findIndex p xs in if i = - 1 then - 1 else i + 1))"

text \<open>
  The polling of the remote-debugging endpoint every 500 ms. \<open>ticks\<close> lists what
  \<^verbatim>\<open>getRemoteJSON\<close> gives at the successive ticks (\<open>None\<close>: it threw); a list with no answer
  in it stands for an endpoint that never answers. The result is the lines logged and the
  first answer, if one ever comes.
\<close>

fun poll :: "jsvalue list option list \<Rightarrow> effect list \<times> jsvalue list option" where
  "poll [] = ([], None)"
| "poll (None # ticks) =
     (case poll ticks of (logs, r) \<Rightarrow> (ConsoleLog ''waiting for chrome to open'' # logs, r))"
| "poll (Some json # ticks) = ([], Some json)"

text \<open>
  \<^verbatim>\<open>open\<close>. Beside the builtins, the process and the server it takes what the outside
  answers: \<open>history\<close> is the answer of the first \<^verbatim>\<open>getRemoteJSON\<close> (\<open>None\<close>: it threw),
  \<open>launched\<close> the child process the launcher returns (\<open>None\<close>: it threw), \<open>ticks\<close> the answers
  to the polling. The entries of an answer are objects.

  In the \<^verbatim>\<open>try\<close> block an exception of \<^verbatim>\<open>manageDebuggerWs\<close> is caught and logged like a failed
  request. In the \<^verbatim>\<open>finally\<close> block nothing is caught: an empty answer to the polling (the
  first entry is destructured) and an exception of \<^verbatim>\<open>manageDebuggerWs\<close> reject the call, and
  \<^verbatim>\<open>this.browser\<close> stays as it was.

  The test of \<^verbatim>\<open>IS_DEV_MODE\<close> at the head of the method is commented out in the source, so
  the function has none.
\<close>

definition open_devtool ::
  "Builtins \<Rightarrow> Process \<Rightarrow> jsvalue list option \<Rightarrow> nat option \<Rightarrow> jsvalue list option list
     \<Rightarrow> DevtoolServer \<Rightarrow> effect list \<times> nat completion \<times> DevtoolServer" where
  "open_devtool b p history launched ticks s =
     (let devtools_url =
            ''devtools://devtools/bundled/inspector.html?ws=localhost:'' @ show_nat (port s);
          try_effects =
            (case history of
               None \<Rightarrow> [ConsoleLog (CHR 0x0A # ''chrome devtool starting'')]
             | Some dbHistoryJson \<Rightarrow>
                 (let idx = findIndex (\<lambda>e. field ''url'' e = JStr devtools_url) dbHistoryJson
                  in if idx \<noteq> - 1
                     then [ConsoleLog ''chrome devtool restarting'',
                           ConsoleLogJSON dbHistoryJson]
                          @ (case manageDebuggerWs b devtools_url
                                    (field ''webSocketDebuggerUrl'' (dbHistoryJson ! nat idx))
                                    ''close'' of
                               None \<Rightarrow> [ConsoleLog (CHR 0x0A # ''chrome devtool starting'')]
                             | Some ws \<Rightarrow> ws)
                     else []));
          launch =
            LaunchBrowser devtools_url
              [if platform p \<noteq> ''darwin''
               then ''--remote-debugging-port='' @ js_String b (REMOTE_DEBUGGER_PORT b p)
               else []];
          opened =
            ConsoleLog
              (''opened in chrome or click here to open chrome devtool:  '' @ devtools_url)
      in case launched of
           None \<Rightarrow> (try_effects @ [launch], Rejected, s)
         | Some pro \<Rightarrow>
             if platform p \<noteq> ''darwin''
             then (case poll ticks of
                     (logs, None) \<Rightarrow> (try_effects @ [launch] @ logs, Pending, s)
                   | (logs, Some json) \<Rightarrow>
                       (case json of
                          [] \<Rightarrow>
                            (try_effects @ [launch] @ logs @ [ConsoleLogJSON json], Rejected, s)
                        | first # others \<Rightarrow>
                            (case manageDebuggerWs b devtools_url
                                    (field ''webSocketDebuggerUrl'' first) ''open'' of
                               None \<Rightarrow>
                                 (try_effects @ [launch] @ logs @ [ConsoleLogJSON json],
                                  Rejected, s)
                             | Some ws \<Rightarrow>
                                 (try_effects @ [launch] @ logs @ [ConsoleLogJSON json] @ ws
                                    @ [opened],
                                  Resolved pro,
                                  s\<lparr> browser := Some pro \<rparr>))))
             else (try_effects @ [launch, opened], Resolved pro, s\<lparr> browser := Some pro \<rparr>))"

text \<open>
  The handler of the server's \<^verbatim>\<open>listening\<close> event, registered by the constructor: it logs
  and calls \<^verbatim>\<open>open\<close>.
\<close>

definition listening ::
  "Builtins \<Rightarrow> Process \<Rightarrow> jsvalue list option \<Rightarrow> nat option \<Rightarrow> jsvalue list option list
     \<Rightarrow> DevtoolServer \<Rightarrow> effect list \<times> nat completion \<times> DevtoolServer" where
  "listening b p history launched ticks s =
     (case open_devtool b p history launched ticks s of
        (effects, r, s') \<Rightarrow>
          (ConsoleLog (''devtool server is listening on port '' @ show_nat (port s)) # effects,
           r, s'))"

subsection \<open>Projecting a record\<close>

text \<open>
  \<^verbatim>\<open>requestWillBeSent\<close>. \<open>stringify\<close> stands for the platform's \<^verbatim>\<open>JSON.stringify\<close>, \<open>now\<close> for
  the clock reading of the call.
\<close>

definition requestWillBeSent ::
  "(jsvalue \<Rightarrow> string) \<Rightarrow> RequestDetail \<Rightarrow> int \<Rightarrow> DevtoolServer \<Rightarrow> DevtoolServer" where
  "requestWillBeSent stringify request now s =
     (let s1 = updateTimestamp now s;
          contentType = getHeader (requestHeaders request) ''content-type''
      in send
           (JObj
              [(''method'', JStr ''Network.requestWillBeSent''),
               (''params'', JObj
                  [(''requestId'', JStr (id' request)),
                   (''frameId'', JStr frameId),
                   (''loaderId'', JStr loaderId),
                   (''request'', JObj
                      ([(''url'', opt_str (url request)),
                        (''method'', opt_str (method' request)),
                        (''headers'', headers_json (requestHeaders request)),
                        (''initialPriority'', JStr ''High''),
                        (''mixedContentType'', JStr ''none'')]
                       @ (if truthy (requestData request)
                          then [(''postData'',
                                   if (case contentType of
                                         None \<Rightarrow> False
                                       | Some ct \<Rightarrow> str_includes ct ''application/json'')
                                   then JStr (stringify (requestData request))
                                   else requestData request)]
                          else []))),
                   (''timestamp'', JNum (timestamp s1)),
                   (''wallTime'', opt_num (requestStartTime request)),
                   (''initiator'', initiator request),
                   (''type'', JStr ''Fetch'')])])
           s1)"

text \<open>
  \<^verbatim>\<open>responseReceived\<close>: three messages, the clock read before each (\<open>now1\<close>, \<open>now2\<close>, \<open>now3\<close>).
\<close>

definition responseReceived ::
  "RequestDetail \<Rightarrow> int \<Rightarrow> int \<Rightarrow> int \<Rightarrow> DevtoolServer \<Rightarrow> DevtoolServer" where
  "responseReceived request now1 now2 now3 s =
     (let s1 = updateTimestamp now1 s;
          contentType = (case getHeader (responseHeaders request) ''content-type'' of
                           None \<Rightarrow> ''text/plain; charset=utf-8''
                         | Some v \<Rightarrow> if v = [] then ''text/plain; charset=utf-8'' else v);
          type = (if regex_test ''image'' contentType then ''Image''
                  else if regex_test ''javascript'' contentType then ''Script''
                  else if regex_test ''css'' contentType then ''Stylesheet''
                  else if regex_test ''html'' contentType then ''Document''
                  else ''Other'');
          s2 = send
                 (JObj
                    [(''method'', JStr ''Network.responseReceived''),
                     (''params'', JObj
                        [(''requestId'', JStr (id' request)),
                         (''frameId'', JStr frameId),
                         (''loaderId'', JStr loaderId),
                         (''timestamp'', JNum (timestamp s1)),
                         (''type'', JStr type),
                         (''response'', JObj
                            [(''url'', opt_str (url request)),
                             (''status'', opt_int (responseStatusCode request)),
                             (''statusText'',
                                JStr (if responseStatusCode request = Some 200
                                      then ''OK'' else [])),
                             (''headers'', headers_json (responseHeaders request)),
                             (''connectionReused'', JBool False),
                             (''encodedDataLength'',
                                opt_int (encodedDataLength (responseInfo request))),
                             (''charset'', JStr ''utf-8''),
                             (''mimeType'', JStr (toMimeType contentType))])])])
                 s1;
          s3 = updateTimestamp now2 s2;
          s4 = send
                 (JObj
                    [(''method'', JStr ''Network.dataReceived''),
                     (''params'', JObj
                        [(''requestId'', JStr (id' request)),
                         (''timestamp'', JNum (timestamp s3)),
                         (''dataLength'', opt_int (dataLength (responseInfo request))),
                         (''encodedDataLength'',
                            opt_int (encodedDataLength (responseInfo request)))])])
                 s3;
          s5 = updateTimestamp now3 s4
      in send
           (JObj
              [(''method'', JStr ''Network.loadingFinished''),
               (''params'', JObj
                  [(''requestId'', JStr (id' request)),
                   (''timestamp'', JNum (timestamp s5)),
                   (''encodedDataLength'',
                      opt_int (encodedDataLength (responseInfo request)))])])
           s5)"

text \<open>
  Modelled from the spec: the dispatcher of the debugger process, which calls the two
  projections, is not among the sources. For a completed record the projector emits
  \<^verbatim>\<open>requestWillBeSent\<close> first and the three response messages after it.
\<close>

definition project ::
  "(jsvalue \<Rightarrow> string) \<Rightarrow> RequestDetail \<Rightarrow> int \<Rightarrow> int \<Rightarrow> int \<Rightarrow> int
     \<Rightarrow> DevtoolServer \<Rightarrow> DevtoolServer" where
  "project stringify request now0 now1 now2 now3 s =
     responseReceived request now1 now2 now3 (requestWillBeSent stringify request now0 s)"

section \<open>Reading messages, the spec's wording, worked examples\<close>

abbreviation params_of :: "jsvalue \<Rightarrow> jsvalue" where
  "params_of m \<equiv> field ''params'' m"

abbreviation response_of :: "jsvalue \<Rightarrow> jsvalue" where
  "response_of m \<equiv> field ''response'' (field ''params'' m)"

abbreviation request_of :: "jsvalue \<Rightarrow> jsvalue" where
  "request_of m \<equiv> field ''request'' (field ''params'' m)"

fun elements :: "jsvalue \<Rightarrow> jsvalue list" where
  "elements (JArr xs) = xs"
| "elements v = []"


text \<open>
  The spec's words for the mime type: the content-type "stripped of any \<^verbatim>\<open>; ...\<close> suffix",
  the text before the first semicolon.
\<close>

definition claimed_mimeType :: "string \<Rightarrow> string" where
  "claimed_mimeType contentType = takeWhile (\<lambda>c. c \<noteq> CHR '';'') contentType"

text \<open>
  The spec's words for the resource type: \<^verbatim>\<open>image/*\<close> gives Image, \<^verbatim>\<open>*/javascript\<close> Script,
  \<^verbatim>\<open>*/css\<close> Stylesheet, \<^verbatim>\<open>text/html\<close> Document, anything else Other.
\<close>

definition claimed_type :: "string \<Rightarrow> string" where
  "claimed_type contentType =
     (let mime = claimed_mimeType contentType
      in if prefix ''image/'' mime then ''Image''
         else if suffix ''/javascript'' mime then ''Script''
         else if suffix ''/css'' mime then ''Stylesheet''
         else if mime = ''text/html'' then ''Document''
         else ''Other'')"

text \<open>A server on port 5270, constructed at clock reading 1000, with a front-end connected.\<close>

definition example_server :: DevtoolServer where
  "example_server = connection (DevtoolServer_new 5270 1000)"

text \<open>A completed record with the given request headers, body, status and response headers.\<close>

definition example_record :: "headers \<Rightarrow> jsvalue \<Rightarrow> int \<Rightarrow> headers \<Rightarrow> RequestDetail" where
  "example_record reqHeaders body status respHeaders =
     (RequestDetail_new ''k3j9x0'' [])
       \<lparr> url := Some ''http://x/y'',
         method' := Some ''POST'',
         requestHeaders := reqHeaders,
         requestData := body,
         responseStatusCode := Some status,
         responseHeaders := respHeaders,
         responseInfo := \<lparr> encodedDataLength = Some 5, dataLength = Some 5 \<rparr>,
         requestStartTime := Some 1700000000 \<rparr>"

text \<open>
  Builtins for the worked examples: \<open>example_Number\<close> reads unsigned decimal numerals (the
  platform also reads signs, fractions, exponents, other radices and surrounding blanks; here
  every other string is \<^verbatim>\<open>NaN\<close>), \<open>example_String\<close> prints integers and \<^verbatim>\<open>NaN\<close>, and the socket
  takes the addresses that begin with \<^verbatim>\<open>ws://\<close>.
\<close>

definition digit_value :: "char \<Rightarrow> nat option" where
  "digit_value c = map_of (zip ''0123456789'' [0, 1, 2, 3, 4, 5, 6, 7, 8, 9]) c"

fun parse_nat :: "nat \<Rightarrow> string \<Rightarrow> nat option" where
  "parse_nat acc [] = Some acc"
| "parse_nat acc (c # cs) =
     (case digit_value c of
        None \<Rightarrow> None
      | Some d \<Rightarrow> parse_nat (10 * acc + d) cs)"

definition example_Number :: "string \<Rightarrow> rat option" where
  "example_Number v = map_option of_nat (parse_nat 0 v)"

definition example_String :: "rat option \<Rightarrow> string" where
  "example_String n = (case n of None \<Rightarrow> ''NaN'' | Some q \<Rightarrow> show_int \<lfloor>q\<rfloor>)"

definition example_builtins :: Builtins where
  "example_builtins =
     \<lparr> js_Number = example_Number,
       js_String = example_String,
       ws_accepts = (\<lambda>address. startsWith address ''ws://'') \<rparr>"

text \<open>A host process started with \<^verbatim>\<open>NETWORK_DEBUG_MODE=true\<close> on macOS.\<close>

definition dev_process :: Process where
  "dev_process = \<lparr> env = [''NETWORK_DEBUG_MODE'' \<mapsto> ''true''], platform = ''darwin'' \<rparr>"

text \<open>A host process started with \<^verbatim>\<open>REMOTE_DEBUGGER_PORT=9444\<close> on Linux.\<close>

definition linux_process :: Process where
  "linux_process = \<lparr> env = [''REMOTE_DEBUGGER_PORT'' \<mapsto> ''9444''], platform = ''linux'' \<rparr>"

section \<open>String search and splitting\<close>

lemma startsWith_prefix: "startsWith s p = prefix p s"
  by (induction s p rule: startsWith.induct) auto

lemma str_includes_sublist: "str_includes s pat = sublist pat s"
  by (induction s) (simp_all add: startsWith_prefix sublist_Cons_right)

lemma regex_test_sublist: "regex_test pat s = sublist pat s"
  by (simp add: regex_test_def str_includes_sublist)

lemma str_split_hd: "str_split sep s = takeWhile (\<lambda>c. c \<noteq> sep) s # tl (str_split sep s)"
  by (induction s) (auto split: list.splits)

lemma toMimeType_claimed:
  "toMimeType ct = (if claimed_mimeType ct = [] then ''text/plain'' else claimed_mimeType ct)"
  unfolding toMimeType_def claimed_mimeType_def by (subst str_split_hd) simp

section \<open>What the projections leave unchanged\<close>


lemma startTime_responseReceived:
  "startTime (responseReceived r now1 now2 now3 s) = startTime s"
  by (simp add: responseReceived_def Let_def send_def updateTimestamp_def)

lemma socket_resolved_requestWillBeSent:
  "socket_resolved (requestWillBeSent stringify r now s) = socket_resolved s"
  by (simp add: requestWillBeSent_def Let_def send_def updateTimestamp_def)

lemma socket_resolved_responseReceived:
  "socket_resolved (responseReceived r now1 now2 now3 s) = socket_resolved s"
  by (simp add: responseReceived_def Let_def send_def updateTimestamp_def)

lemma example_server_simps:
  "sent example_server = []" "startTime example_server = 1000" "port example_server = 5270"
  "socket_resolved example_server" "delivered example_server = []"
  by (simp_all add: example_server_def connection_def DevtoolServer_new_def delivered_def)

section \<open>The environment and the opening of the front-end\<close>

text \<open>
  The launcher's argument follows the environment: with \<^verbatim>\<open>REMOTE_DEBUGGER_PORT=9444\<close> on
  Linux the browser is started with that port, without the variable with 9333.
\<close>

lemma launch_port_from_env:
  "fst (open_devtool example_builtins linux_process None None [] example_server)
     = [ConsoleLog (CHR 0x0A # ''chrome devtool starting''),
        LaunchBrowser ''devtools://devtools/bundled/inspector.html?ws=localhost:5270''
          [''--remote-debugging-port=9444'']]"
  "fst (open_devtool example_builtins (linux_process\<lparr> env := Map.empty \<rparr>) None None []
          example_server)
     = [ConsoleLog (CHR 0x0A # ''chrome devtool starting''),
        LaunchBrowser ''devtools://devtools/bundled/inspector.html?ws=localhost:5270''
          [''--remote-debugging-port=9333'']]"
  by (simp_all add: open_devtool_def Let_def REMOTE_DEBUGGER_PORT_def linux_process_def
        example_builtins_def example_Number_def example_String_def digit_value_def
        show_int_def show_nat.simps digit_char_def example_server_simps)

text \<open>
  An entry without \<^verbatim>\<open>webSocketDebuggerUrl\<close>: found in the first answer, its socket cannot be
  made and the \<^verbatim>\<open>catch\<close> logs; first in the answer to the polling, it rejects the call and
  no browser is recorded.
\<close>

lemma open_devtool_missing_socket_url:
  "fst (open_devtool example_builtins dev_process
          (Some [JObj [(''url'',
                          JStr ''devtools://devtools/bundled/inspector.html?ws=localhost:5270'')]])
          None [] example_server)
     = [ConsoleLog ''chrome devtool restarting'',
        ConsoleLogJSON
          [JObj [(''url'',
                    JStr ''devtools://devtools/bundled/inspector.html?ws=localhost:5270'')]],
        ConsoleLog (CHR 0x0A # ''chrome devtool starting''),
        LaunchBrowser ''devtools://devtools/bundled/inspector.html?ws=localhost:5270'' [[]]]"
  "snd (open_devtool example_builtins linux_process None (Some 1)
          [Some [JObj [(''id'', JStr ''1'')]]] example_server)
     = (Rejected, example_server)"
  by (simp_all add: open_devtool_def Let_def manageDebuggerWs_def dev_process_def
        linux_process_def example_server_simps show_nat.simps digit_char_def)

section \<open>The four messages of a record\<close>

text \<open>
  Claim C1. Projecting a completed record appends exactly four messages to what the server
  sends, in the order \<^verbatim>\<open>Network.requestWillBeSent\<close>, \<^verbatim>\<open>Network.responseReceived\<close>,
  \<^verbatim>\<open>Network.dataReceived\<close>, \<^verbatim>\<open>Network.loadingFinished\<close>, and the \<^verbatim>\<open>requestId\<close> of each is the
  id of the record. With a front-end connected, these four are what reaches the socket next.
\<close>

theorem project_four_messages:
  "\<exists>m0 m1 m2 m3.
     sent (project stringify r now0 now1 now2 now3 s) = sent s @ [m0, m1, m2, m3]
     \<and> field ''method'' m0 = JStr ''Network.requestWillBeSent''
     \<and> field ''method'' m1 = JStr ''Network.responseReceived''
     \<and> field ''method'' m2 = JStr ''Network.dataReceived''
     \<and> field ''method'' m3 = JStr ''Network.loadingFinished''
     \<and> field ''requestId'' (params_of m0) = JStr (id' r)
     \<and> field ''requestId'' (params_of m1) = JStr (id' r)
     \<and> field ''requestId'' (params_of m2) = JStr (id' r)
     \<and> field ''requestId'' (params_of m3) = JStr (id' r)
     \<and> (socket_resolved s \<longrightarrow>
          delivered (project stringify r now0 now1 now2 now3 s)
            = delivered s @ [m0, m1, m2, m3])"
proof -
  let ?s0 = "requestWillBeSent stringify r now0 s"
  obtain m0 where
    a: "sent ?s0 = sent s @ [m0]"
       "field ''method'' m0 = JStr ''Network.requestWillBeSent''"
       "field ''requestId'' (params_of m0) = JStr (id' r)"
    by (simp add: requestWillBeSent_def Let_def send_def updateTimestamp_def)
  obtain m1 m2 m3 where
    b: "sent (responseReceived r now1 now2 now3 ?s0) = sent ?s0 @ [m1, m2, m3]"
       "field ''method'' m1 = JStr ''Network.responseReceived''"
       "field ''method'' m2 = JStr ''Network.dataReceived''"
       "field ''method'' m3 = JStr ''Network.loadingFinished''"
       "field ''requestId'' (params_of m1) = JStr (id' r)"
       "field ''requestId'' (params_of m2) = JStr (id' r)"
       "field ''requestId'' (params_of m3) = JStr (id' r)"
    by (simp add: responseReceived_def Let_def send_def updateTimestamp_def)
  have c: "sent (project stringify r now0 now1 now2 now3 s) = sent s @ [m0, m1, m2, m3]"
    using a(1) b(1) by (simp add: project_def)
  have d: "socket_resolved (project stringify r now0 now1 now2 now3 s) = socket_resolved s"
    by (simp add: project_def socket_resolved_responseReceived
          socket_resolved_requestWillBeSent)
  have "socket_resolved s \<longrightarrow>
          delivered (project stringify r now0 now1 now2 now3 s)
            = delivered s @ [m0, m1, m2, m3]"
    using c d by (simp add: delivered_def)
  with a b c show ?thesis
    by blast
qed

text \<open>The four messages of an example record, on a server with a front-end connected.\<close>

theorem project_four_messages_witness:
  "map (field ''method'')
     (delivered
        (project JSON_stringify (example_record [] JUndefined 200 []) 1001 1002 1003 1004
           example_server))
     = [JStr ''Network.requestWillBeSent'', JStr ''Network.responseReceived'',
        JStr ''Network.dataReceived'', JStr ''Network.loadingFinished'']"
  using project_four_messages
          [of JSON_stringify "example_record [] JUndefined 200 []" 1001 1002 1003 1004
              example_server]
  by (auto simp: example_server_simps)

section \<open>The response message\<close>

text \<open>
  Claim C3. In the \<^verbatim>\<open>Network.responseReceived\<close> message of a record, \<^verbatim>\<open>statusText\<close> is
  \<^verbatim>\<open>"OK"\<close> exactly when the response status code is 200, and the empty string for every
  other status (500 among them, and a status that was never set).
\<close>

theorem responseReceived_statusText:
  "\<exists>m1 m2 m3.
     sent (responseReceived r now1 now2 now3 s) = sent s @ [m1, m2, m3]
     \<and> field ''method'' m1 = JStr ''Network.responseReceived''
     \<and> (field ''statusText'' (response_of m1) = JStr ''OK'') = (responseStatusCode r = Some 200)
     \<and> (responseStatusCode r \<noteq> Some 200 \<longrightarrow> field ''statusText'' (response_of m1) = JStr [])"
  by (simp add: responseReceived_def Let_def send_def updateTimestamp_def)

text \<open>A response with status 500 has the empty status text.\<close>

theorem responseReceived_statusText_witness:
  "field ''statusText''
     (response_of
        (hd (sent (responseReceived (example_record [] JUndefined 500 []) 1001 1002 1003
                     example_server))))
     = JStr []"
  using responseReceived_statusText
          [of "example_record [] JUndefined 500 []" 1001 1002 1003 example_server]
  by (auto simp: example_record_def example_server_simps)

text \<open>
  Claim C2, as amended. When the response carries a non-empty content-type, the \<^verbatim>\<open>type\<close> of
  the \<^verbatim>\<open>Network.responseReceived\<close> message is decided by case-sensitive substring tests on
  the whole header value, in this order: it is Image if the value contains \<^verbatim>\<open>image\<close>,
  otherwise Script if it contains \<^verbatim>\<open>javascript\<close>, otherwise Stylesheet if it contains \<^verbatim>\<open>css\<close>,
  otherwise Document if it contains \<^verbatim>\<open>html\<close>, otherwise Other. The spec's patterns
  (\<^verbatim>\<open>image/*\<close>, \<^verbatim>\<open>*/javascript\<close>, \<^verbatim>\<open>*/css\<close>, \<^verbatim>\<open>text/html\<close>) are narrower than these tests.
\<close>

theorem responseReceived_type:
  assumes "getHeader (responseHeaders r) ''content-type'' = Some ct" and "ct \<noteq> []"
  shows "\<exists>m1 m2 m3.
           sent (responseReceived r now1 now2 now3 s) = sent s @ [m1, m2, m3]
           \<and> field ''method'' m1 = JStr ''Network.responseReceived''
           \<and> field ''type'' (params_of m1)
               = JStr (if sublist ''image'' ct then ''Image''
                       else if sublist ''javascript'' ct then ''Script''
                       else if sublist ''css'' ct then ''Stylesheet''
                       else if sublist ''html'' ct then ''Document''
                       else ''Other'')"
  using assms
  by (simp add: responseReceived_def Let_def send_def updateTimestamp_def regex_test_sublist)

text \<open>A style sheet, its header written \<^verbatim>\<open>Content-Type\<close>.\<close>

theorem responseReceived_type_witness:
  "field ''type''
     (params_of
        (hd (sent (responseReceived
                     (example_record [] JUndefined 200 [(''Content-Type'', ''text/css'')])
                     1001 1002 1003 example_server))))
     = JStr ''Stylesheet''"
proof -
  have h: "getHeader
             (responseHeaders (example_record [] JUndefined 200 [(''Content-Type'', ''text/css'')]))
             ''content-type'' = Some ''text/css''"
    by (simp add: example_record_def toLowerCase_def toLowerCase_char_def)
  have n: "''text/css'' \<noteq> []"
    by simp
  show ?thesis
    using responseReceived_type [OF h n, of 1001 1002 1003 example_server]
    by (auto simp: example_server_simps str_includes_sublist [symmetric])
qed

text \<open>
  The content-type \<^verbatim>\<open>application/xhtml+xml\<close> is none of the spec's four patterns, so the
  spec's classification is Other; the message says Document.
\<close>

theorem responseReceived_type_counterexample:
  "field ''type''
     (params_of
        (hd (sent (responseReceived
                     (example_record [] JUndefined 200
                        [(''content-type'', ''application/xhtml+xml'')])
                     1001 1002 1003 example_server))))
     = JStr ''Document''
   \<and> claimed_type ''application/xhtml+xml'' = ''Other''"
  by (simp add: responseReceived_def Let_def send_def updateTimestamp_def regex_test_def
        example_record_def example_server_simps toLowerCase_def toLowerCase_char_def
        claimed_type_def claimed_mimeType_def suffix_to_prefix)

text \<open>
  Claim C4, as amended. When the response carries a non-empty content-type, the \<^verbatim>\<open>mimeType\<close>
  of the \<^verbatim>\<open>Network.responseReceived\<close> message is the text of the content-type before its
  first semicolon if that text is not empty, and \<^verbatim>\<open>text/plain\<close> if it is empty (a
  content-type that starts with a semicolon).
\<close>

theorem responseReceived_mimeType:
  assumes "getHeader (responseHeaders r) ''content-type'' = Some ct" and "ct \<noteq> []"
  shows "\<exists>m1 m2 m3.
           sent (responseReceived r now1 now2 now3 s) = sent s @ [m1, m2, m3]
           \<and> field ''method'' m1 = JStr ''Network.responseReceived''
           \<and> field ''mimeType'' (response_of m1)
               = JStr (if claimed_mimeType ct = [] then ''text/plain''
                       else claimed_mimeType ct)"
proof -
  have "toMimeType ct = (if claimed_mimeType ct = [] then ''text/plain'' else claimed_mimeType ct)"
    by (rule toMimeType_claimed)
  with assms show ?thesis
    by (simp add: responseReceived_def Let_def send_def updateTimestamp_def)
qed

text \<open>The parameter \<^verbatim>\<open>charset=utf-8\<close> is stripped from \<^verbatim>\<open>text/html; charset=utf-8\<close>.\<close>

theorem responseReceived_mimeType_witness:
  "field ''mimeType''
     (response_of
        (hd (sent (responseReceived
                     (example_record [] JUndefined 200
                        [(''Content-Type'', ''text/html; charset=utf-8'')])
                     1001 1002 1003 example_server))))
     = JStr ''text/html''"
proof -
  have h: "getHeader
             (responseHeaders
                (example_record [] JUndefined 200
                   [(''Content-Type'', ''text/html; charset=utf-8'')]))
             ''content-type'' = Some ''text/html; charset=utf-8''"
    by (simp add: example_record_def toLowerCase_def toLowerCase_char_def)
  have n: "''text/html; charset=utf-8'' \<noteq> []"
    by simp
  show ?thesis
    using responseReceived_mimeType [OF h n, of 1001 1002 1003 example_server]
    by (auto simp: example_server_simps claimed_mimeType_def)
qed

text \<open>
  For the content-type \<^verbatim>\<open>;charset=utf-8\<close> the text before the first semicolon is empty; the
  message says \<^verbatim>\<open>text/plain\<close>.
\<close>

theorem responseReceived_mimeType_counterexample:
  "field ''mimeType''
     (response_of
        (hd (sent (responseReceived
                     (example_record [] JUndefined 200
                        [(''content-type'', '';charset=utf-8'')])
                     1001 1002 1003 example_server))))
     = JStr ''text/plain''
   \<and> claimed_mimeType '';charset=utf-8'' = []"
  by (simp add: responseReceived_def Let_def send_def updateTimestamp_def toMimeType_def
        example_record_def example_server_simps toLowerCase_def toLowerCase_char_def
        claimed_mimeType_def)

text \<open>
  Claim C10. When the response headers of a record have no content-type, the
  \<^verbatim>\<open>Network.responseReceived\<close> message is built from the default
  \<^verbatim>\<open>text/plain; charset=utf-8\<close>: its \<^verbatim>\<open>type\<close> is Other and its \<^verbatim>\<open>mimeType\<close> is \<^verbatim>\<open>text/plain\<close>.
\<close>

theorem responseReceived_no_contentType:
  assumes "getHeader (responseHeaders r) ''content-type'' = None"
  shows "\<exists>m1 m2 m3.
           sent (responseReceived r now1 now2 now3 s) = sent s @ [m1, m2, m3]
           \<and> field ''method'' m1 = JStr ''Network.responseReceived''
           \<and> field ''type'' (params_of m1) = JStr ''Other''
           \<and> field ''mimeType'' (response_of m1) = JStr ''text/plain''"
proof -
  let ?default = "''text/plain; charset=utf-8''"
  have t: "\<not> regex_test ''image'' ?default" "\<not> regex_test ''javascript'' ?default"
    "\<not> regex_test ''css'' ?default" "\<not> regex_test ''html'' ?default"
    by (simp_all add: regex_test_def)
  have m: "toMimeType ?default = ''text/plain''"
    by (simp add: toMimeType_def)
  from assms t m show ?thesis
    by (simp add: responseReceived_def Let_def send_def updateTimestamp_def)
qed

text \<open>A response whose only header is \<^verbatim>\<open>Date\<close>.\<close>

theorem responseReceived_no_contentType_witness:
  "getHeader (responseHeaders (example_record [] JUndefined 200 [(''Date'', ''today'')]))
     ''content-type'' = None
   \<and> field ''type''
       (params_of
          (hd (sent (responseReceived (example_record [] JUndefined 200 [(''Date'', ''today'')])
                       1001 1002 1003 example_server))))
     = JStr ''Other''
   \<and> field ''mimeType''
       (response_of
          (hd (sent (responseReceived (example_record [] JUndefined 200 [(''Date'', ''today'')])
                       1001 1002 1003 example_server))))
     = JStr ''text/plain''"
proof -
  have h: "getHeader (responseHeaders (example_record [] JUndefined 200 [(''Date'', ''today'')]))
             ''content-type'' = None"
    by (simp add: example_record_def toLowerCase_def toLowerCase_char_def)
  show ?thesis
    using h responseReceived_no_contentType [OF h, of 1001 1002 1003 example_server]
    by (auto simp: example_server_simps)
qed

section \<open>The request message\<close>

text \<open>
  Claim C5, as amended. The \<^verbatim>\<open>request\<close> block of a \<^verbatim>\<open>Network.requestWillBeSent\<close> message has a
  \<^verbatim>\<open>postData\<close> property exactly when the request body of the record is truthy (set, and not
  \<^verbatim>\<open>null\<close>, \<^verbatim>\<open>false\<close>, \<^verbatim>\<open>0\<close> or the empty string). When it has one, it is the JSON
  serialisation of the body if the request has a content-type header whose value contains
  \<^verbatim>\<open>application/json\<close>, and the body itself otherwise.
\<close>

theorem requestWillBeSent_postData:
  "\<exists>m. sent (requestWillBeSent stringify r now s) = sent s @ [m]
       \<and> field ''method'' m = JStr ''Network.requestWillBeSent''
       \<and> has_field ''postData'' (request_of m) = truthy (requestData r)
       \<and> (truthy (requestData r) \<longrightarrow>
            field ''postData'' (request_of m)
              = (if (case getHeader (requestHeaders r) ''content-type'' of
                       None \<Rightarrow> False
                     | Some ct \<Rightarrow> sublist ''application/json'' ct)
                 then JStr (stringify (requestData r))
                 else requestData r))"
proof (cases "truthy (requestData r)")
  case True
  then show ?thesis
    by (auto simp: requestWillBeSent_def Let_def send_def updateTimestamp_def
          str_includes_sublist split: option.splits)
next
  case False
  then show ?thesis
    by (simp add: requestWillBeSent_def Let_def send_def updateTimestamp_def)
qed

text \<open>A POST of the object \<^verbatim>\<open>{"k":1}\<close> with \<^verbatim>\<open>content-type: application/json\<close>.\<close>

theorem requestWillBeSent_postData_witness:
  "field ''postData''
     (request_of
        (hd (sent (requestWillBeSent JSON_stringify
                     (example_record [(''content-type'', ''application/json'')]
                        (JObj [(''k'', JNum 1)]) 200 [])
                     1001 example_server))))
     = JStr ''{\"k\":1}''"
  using requestWillBeSent_postData
          [of JSON_stringify
              "example_record [(''content-type'', ''application/json'')]
                 (JObj [(''k'', JNum 1)]) 200 []"
              1001 example_server]
  by (auto simp: example_record_def example_server_simps toLowerCase_def toLowerCase_char_def
        str_includes_sublist [symmetric] quote_def quote_char_def show_int_def
        show_nat.simps digit_char_def)

text \<open>
  A POST whose JSON body is the number \<^verbatim>\<open>0\<close>: the record has a request body, the message
  has no \<^verbatim>\<open>postData\<close>.
\<close>

theorem requestWillBeSent_postData_counterexample:
  "requestData (example_record [(''content-type'', ''application/json'')] (JNum 0) 200 [])
     = JNum 0
   \<and> \<not> has_field ''postData''
         (request_of
            (hd (sent (requestWillBeSent JSON_stringify
                         (example_record [(''content-type'', ''application/json'')]
                            (JNum 0) 200 [])
                         1001 example_server))))"
  by (simp add: requestWillBeSent_def Let_def send_def updateTimestamp_def
        example_record_def example_server_simps)

section \<open>Timestamps and the constant ids\<close>



text \<open>
  Claim C8. The \<^verbatim>\<open>frameId\<close> and the \<^verbatim>\<open>loaderId\<close> of every \<^verbatim>\<open>Network.requestWillBeSent\<close> and
  every \<^verbatim>\<open>Network.responseReceived\<close> message are the two constants of the module, whatever
  the record, the clock and the state of the server. The two other messages carry neither.
\<close>

theorem frameId_loaderId_constant:
  "frameId = ''517.528'' \<and> loaderId = ''517.529''
   \<and> (\<exists>m0. sent (requestWillBeSent stringify r now0 s) = sent s @ [m0]
         \<and> field ''frameId'' (params_of m0) = JStr frameId
         \<and> field ''loaderId'' (params_of m0) = JStr loaderId)
   \<and> (\<exists>m1 m2 m3.
         sent (responseReceived r' now1 now2 now3 s') = sent s' @ [m1, m2, m3]
         \<and> field ''frameId'' (params_of m1) = JStr frameId
         \<and> field ''loaderId'' (params_of m1) = JStr loaderId
         \<and> \<not> has_field ''frameId'' (params_of m2) \<and> \<not> has_field ''loaderId'' (params_of m2)
         \<and> \<not> has_field ''frameId'' (params_of m3) \<and> \<not> has_field ''loaderId'' (params_of m3))"
  by (simp add: requestWillBeSent_def responseReceived_def Let_def send_def
        updateTimestamp_def frameId_def loaderId_def)

text \<open>The two ids in the messages of an example record.\<close>

theorem frameId_loaderId_constant_witness:
  "field ''frameId''
     (params_of
        (hd (sent (requestWillBeSent JSON_stringify (example_record [] JUndefined 200 []) 1250
                     example_server))))
     = JStr ''517.528''
   \<and> field ''loaderId''
       (params_of
          (hd (sent (responseReceived (example_record [] JUndefined 200 []) 1500 1500 2000
                       example_server))))
     = JStr ''517.529''"
  using frameId_loaderId_constant
          [of JSON_stringify "example_record [] JUndefined 200 []" 1250 example_server
              "example_record [] JUndefined 200 []" 1500 1500 2000 example_server]
  by (auto simp: example_server_simps)

section \<open>Call frames of a new record\<close>

text \<open>
  Claim C9. A record constructed from a non-empty captured stack has one call frame for
  each stack frame, in the same order. In each, a file name that begins with \<^verbatim>\<open>/\<close> gives the url
  \<^verbatim>\<open>file://\<close> followed by the file name, a missing or empty file name gives the empty url, and a
  missing function name, line number or column number gives \<^verbatim>\<open>""\<close>, \<^verbatim>\<open>0\<close> and \<^verbatim>\<open>0\<close>.
\<close>

theorem RequestDetail_callFrames:
  assumes "frames \<noteq> []"
  shows "\<exists>cfs.
           initiator (RequestDetail_new rid frames)
             = JObj [(''type'', JStr ''script''), (''stack'', JObj [(''callFrames'', JArr cfs)])]
           \<and> length cfs = length frames
           \<and> (\<forall>i < length frames.
                 (\<forall>rest. fileName (frames ! i) = Some (CHR ''/'' # rest)
                    \<longrightarrow> field ''url'' (cfs ! i) = JStr (''file://'' @ CHR ''/'' # rest))
                 \<and> (fileName (frames ! i) = None \<or> fileName (frames ! i) = Some []
                      \<longrightarrow> field ''url'' (cfs ! i) = JStr [])
                 \<and> (functionName (frames ! i) = None
                      \<longrightarrow> field ''functionName'' (cfs ! i) = JStr [])
                 \<and> (lineNumber (frames ! i) = None
                      \<longrightarrow> field ''lineNumber'' (cfs ! i) = JNum 0)
                 \<and> (columnNumber (frames ! i) = None
                      \<longrightarrow> field ''columnNumber'' (cfs ! i) = JNum 0))"
  using assms by (auto simp: RequestDetail_new_def Let_def)

text \<open>
  A stack of two frames: the first knows only its file, \<^verbatim>\<open>/app/index.js\<close>; the second has no
  file name.
\<close>

theorem RequestDetail_callFrames_witness:
  "map (field ''url'')
     (elements
        (field ''callFrames''
           (field ''stack''
              (initiator
                 (RequestDetail_new ''k3j9x0''
                    [\<lparr> fileName = Some ''/app/index.js'', functionName = None,
                        lineNumber = None, columnNumber = None \<rparr>,
                     \<lparr> fileName = None, functionName = Some ''main'',
                        lineNumber = Some 3, columnNumber = Some 7 \<rparr>])))))
     = [JStr ''file:///app/index.js'', JStr []]"
proof -
  let ?frames = "[\<lparr> fileName = Some ''/app/index.js'', functionName = None,
                     lineNumber = None, columnNumber = None \<rparr>,
                  \<lparr> fileName = None, functionName = Some ''main'',
                     lineNumber = Some 3, columnNumber = Some 7 \<rparr>]"
  have ne: "?frames \<noteq> []"
    by simp
  from RequestDetail_callFrames [OF ne, of "''k3j9x0''"]
  obtain cfs where
    i: "initiator (RequestDetail_new ''k3j9x0'' ?frames)
          = JObj [(''type'', JStr ''script''), (''stack'', JObj [(''callFrames'', JArr cfs)])]"
    and l: "length cfs = length ?frames"
    and u0: "field ''url'' (cfs ! 0) = JStr ''file:///app/index.js''"
    and u1: "field ''url'' (cfs ! 1) = JStr []"
    by fastforce
  from l obtain a b where "cfs = [a, b]"
    by (cases cfs; cases "tl cfs") auto
  with i u0 u1 show ?thesis
    by simp
qed

section \<open>Dev mode and the browser\<close>

text \<open>
  Claim C6. The claim is that in dev mode (\<^verbatim>\<open>NETWORK_DEBUG_MODE=true\<close>) the browser is not
  launched automatically. The code does otherwise: the flag is computed, but the test of it
  in \<^verbatim>\<open>open\<close> is commented out, and what is proved here is what the code does. In dev mode,
  when the server starts listening, the browser launcher is called with the inspector url of
  the server's port, whatever the endpoint and the launcher answer.
\<close>

theorem listening_dev_mode_launches_browser:
  assumes "IS_DEV_MODE p"
  shows "LaunchBrowser
           (''devtools://devtools/bundled/inspector.html?ws=localhost:'' @ show_nat (port s))
           [if platform p \<noteq> ''darwin''
            then ''--remote-debugging-port='' @ js_String b (REMOTE_DEBUGGER_PORT b p)
            else []]
           \<in> set (fst (listening b p history launched ticks s))"
proof -
  obtain effects r s' where o: "open_devtool b p history launched ticks s = (effects, r, s')"
    by (cases "open_devtool b p history launched ticks s") auto
  let ?launch =
    "LaunchBrowser
       (''devtools://devtools/bundled/inspector.html?ws=localhost:'' @ show_nat (port s))
       [if platform p \<noteq> ''darwin''
        then ''--remote-debugging-port='' @ js_String b (REMOTE_DEBUGGER_PORT b p)
        else []]"
  from o have "?launch \<in> set effects"
    by (auto simp: open_devtool_def Let_def split: option.splits prod.splits list.splits
          if_splits)
  with o show ?thesis
    by (simp add: listening_def)
qed

text \<open>
  The process started with \<^verbatim>\<open>NETWORK_DEBUG_MODE=true\<close> on macOS, the endpoint not answering:
  dev mode is on, and the browser launcher is called.
\<close>

theorem listening_dev_mode_launches_browser_witness:
  "IS_DEV_MODE dev_process
   \<and> LaunchBrowser ''devtools://devtools/bundled/inspector.html?ws=localhost:5270'' [[]]
       \<in> set (fst (listening example_builtins dev_process None (Some 1) [] example_server))"
proof -
  have d: "IS_DEV_MODE dev_process"
    by (simp add: IS_DEV_MODE_def dev_process_def)
  show ?thesis
    using d listening_dev_mode_launches_browser
              [OF d, of example_server example_builtins None "Some 1" "[]"]
    by (simp add: dev_process_def example_server_simps show_nat.simps digit_char_def)
qed

end
